theory Spec2Isabelle
  imports Main
begin

section \<open>Values, events and the booking table\<close>

text \<open>
  The handler of \<^verbatim>\<open>cancel.py\<close> receives a JSON event and writes to one DynamoDB table.
  Event values are JSON values as Python decodes them: a number without a fraction is an
  \<^verbatim>\<open>int\<close>, a number with one is a \<^verbatim>\<open>float\<close>, here its mantissa and binary exponent. The
  event itself is a dictionary with string keys.
\<close>

datatype pyval =
    PNone
  | PBool bool
  | PInt int
  | PFloat int int
  | PStr string
  | PList "pyval list"
  | PDict "(string \<times> pyval) list"

type_synonym event = "string \<rightharpoonup> pyval"

text \<open>
  A booking record is stored under its \<^verbatim>\<open>id\<close>, a string; \<open>item\<close> holds the attributes of the
  record other than the key (among them \<^verbatim>\<open>status\<close>).
\<close>

type_synonym item = "string \<rightharpoonup> pyval"
type_synonym booking_table = "string \<rightharpoonup> item"

section \<open>Exceptions\<close>

text \<open>
  \<^verbatim>\<open>botocore.exceptions.ClientError\<close>: an error answer of the store, with the code and the
  message of \<^verbatim>\<open>response["Error"]\<close>.
\<close>

datatype client_error = ClientError (error_code: string) (error_message: string)

text \<open>
  \<^verbatim>\<open>BookingCancellationException\<close> has three attributes. Its \<^verbatim>\<open>details\<close> are the empty
  dictionary, a \<^verbatim>\<open>ClientError\<close> (set by \<^verbatim>\<open>cancel_booking\<close>) or another
  \<^verbatim>\<open>BookingCancellationException\<close> (set by \<^verbatim>\<open>lambda_handler\<close>).
\<close>

datatype error_details =
    EmptyDict
  | StoreError client_error
  | Wrapped booking_cancellation
and booking_cancellation =
    BookingCancellationException (message: string) (status_code: int) (details: error_details)

text \<open>
  Python's truth value of the constructor's arguments: \<^verbatim>\<open>None\<close>, the empty string, zero and
  the empty dictionary are false; an exception object is true.
\<close>

fun truthy_details :: "error_details \<Rightarrow> bool" where
  "truthy_details EmptyDict = False"
| "truthy_details (StoreError e) = True"
| "truthy_details (Wrapped b) = True"

text \<open>
  \<^verbatim>\<open>BookingCancellationException.__init__(self, message=None, status_code=None, details=None)\<close>:
  each attribute is \<^verbatim>\<open>argument or default\<close>.
\<close>

definition BookingCancellationException_init ::
  "string option \<Rightarrow> int option \<Rightarrow> error_details option \<Rightarrow> booking_cancellation" where
  "BookingCancellationException_init msg code det =
     BookingCancellationException
       (case msg of
          None \<Rightarrow> ''Booking cancellation failed''
        | Some m \<Rightarrow> if m = [] then ''Booking cancellation failed'' else m)
       (case code of
          None \<Rightarrow> 500
        | Some c \<Rightarrow> if c = 0 then 500 else c)
       (case det of
          None \<Rightarrow> EmptyDict
        | Some d \<Rightarrow> if truthy_details d then d else EmptyDict)"

text \<open>
  The exceptions of the program. \<^verbatim>\<open>lambda_handler\<close> raises the built-in \<^verbatim>\<open>ValueError\<close>
  itself; the call \<^verbatim>\<open>table.update_item\<close> raises a \<^verbatim>\<open>ClientError\<close> when the store refuses
  the request, and it can raise anything else: the SDK raises a \<^verbatim>\<open>TypeError\<close> on a
  \<^verbatim>\<open>float\<close> and a signal of the \<^verbatim>\<open>decimal\<close> module on a number of more than 38 digits
  (\<^verbatim>\<open>decimal.Rounded\<close> at \<^verbatim>\<open>10**38\<close>; \<^verbatim>\<open>decimal.Inexact\<close> and \<^verbatim>\<open>decimal.Overflow\<close> are its
  siblings under \<^verbatim>\<open>decimal.DecimalException\<close>). Only the first is a \<^verbatim>\<open>ClientError\<close>.
\<close>

datatype exn =
    ValueError string
  | TypeError string
  | DecimalException
  | RaisedClientError client_error
  | BookingCancellation booking_cancellation

text \<open>
  Attribute access on a raised exception, \<open>None\<close> where the object has no such attribute:
  only a \<^verbatim>\<open>BookingCancellationException\<close> has \<^verbatim>\<open>message\<close>, \<^verbatim>\<open>status_code\<close> and
  \<^verbatim>\<open>details\<close>.
\<close>

fun exn_message :: "exn \<Rightarrow> string option" where
  "exn_message (BookingCancellation b) = Some (message b)"
| "exn_message e = None"

fun exn_status_code :: "exn \<Rightarrow> int option" where
  "exn_status_code (BookingCancellation b) = Some (status_code b)"
| "exn_status_code e = None"

fun exn_details :: "exn \<Rightarrow> error_details option" where
  "exn_details (BookingCancellation b) = Some (details b)"
| "exn_details e = None"

text \<open>
  The two error kinds of the specification: the \<^verbatim>\<open>ValueError\<close> is its input validation
  failure, the \<^verbatim>\<open>BookingCancellationException\<close> its cancellation failure. Any other
  exception is of neither kind.
\<close>

datatype error_kind = InvalidInput | CancellationFailed | Unclassified

fun kind_of :: "exn \<Rightarrow> error_kind" where
  "kind_of (ValueError m) = InvalidInput"
| "kind_of (BookingCancellation b) = CancellationFailed"
| "kind_of e = Unclassified"

section \<open>The store call and the tracer\<close>

text \<open>
  The arguments of \<^verbatim>\<open>table.update_item\<close>, with the placeholders of the two expressions
  replaced by what \<^verbatim>\<open>ExpressionAttributeNames\<close> and \<^verbatim>\<open>ExpressionAttributeValues\<close> bind them to:
  \<^verbatim>\<open>"id = :idVal"\<close> compares an attribute with a value, \<^verbatim>\<open>"SET #STATUS = :cancelled"\<close> assigns a
  value to an attribute. A request may come without a condition (\<open>None\<close>); the handler's
  never does. \<^verbatim>\<open>ReturnValues\<close> is always \<^verbatim>\<open>"UPDATED_NEW"\<close>: the answer holds the attributes
  the update has set.
\<close>

datatype condition = AttrEquals string pyval

datatype update_action = SetAttr string pyval

record update_request =
  Key :: pyval
  ConditionExpression :: "condition option"
  UpdateExpression :: update_action

type_synonym response = "(string \<times> pyval) list"

text \<open>
  The table is reached through the module's global \<^verbatim>\<open>table\<close>. The model passes its
  \<^verbatim>\<open>update_item\<close> in as a parameter: any function from a request and the table's contents to
  an outcome (the attributes of the answer, or an exception of any class) and the new
  contents.
\<close>

type_synonym update_item_op =
  "update_request \<Rightarrow> booking_table \<Rightarrow> (exn + response) \<times> booking_table"

datatype trace_value = Response response | Error booking_cancellation

datatype trace_entry =
    Annotation string string
  | Metadata pyval trace_value

text \<open>
  What an invocation can change: the contents of the table, the list of calls made to
  \<^verbatim>\<open>table.update_item\<close> and what the tracer has been given, both in order. The calls of
  \<^verbatim>\<open>logger\<close> only write log lines and are left out.
\<close>

record world =
  bookings :: booking_table
  store_calls :: "update_request list"
  tracer_log :: "trace_entry list"

definition call_update_item ::
  "update_item_op \<Rightarrow> update_request \<Rightarrow> world \<Rightarrow> (exn + response) \<times> world" where
  "call_update_item update_item req w =
     (case update_item req (bookings w) of
        (r, t) \<Rightarrow> (r, w\<lparr>bookings := t, store_calls := store_calls w @ [req]\<rparr>))"

text \<open>
  Modelled from the spec: the tracing sink of \<^verbatim>\<open>lambda_python_powertools\<close>, which is not
  among the sources. Its \<^verbatim>\<open>put_annotation(key, value)\<close> and \<^verbatim>\<open>put_metadata(key, value)\<close> are
  fire-and-forget: they record the pair and never fail. The decorators of the same library
  around the two functions are not modelled.
\<close>

definition put_annotation :: "string \<Rightarrow> string \<Rightarrow> world \<Rightarrow> world" where
  "put_annotation k v w = w\<lparr>tracer_log := tracer_log w @ [Annotation k v]\<rparr>"

definition put_metadata :: "pyval \<Rightarrow> trace_value \<Rightarrow> world \<Rightarrow> world" where
  "put_metadata k v w = w\<lparr>tracer_log := tracer_log w @ [Metadata k v]\<rparr>"

section \<open>The handler\<close>

text \<open>
  \<^verbatim>\<open>cancel_booking(booking_id)\<close> sends one request: the key and the value compared in the
  condition are both the booking identifier, the status is set to \<^verbatim>\<open>CANCELLED\<close>. On an answer
  it hands the answer to the tracer under the booking identifier and returns \<^verbatim>\<open>True\<close>. Its
  \<^verbatim>\<open>except\<close> clause catches a \<^verbatim>\<open>ClientError\<close> only, which becomes a
  \<^verbatim>\<open>BookingCancellationException\<close> with that error as details; any other exception of the
  call leaves the function as it is.
\<close>

definition cancel_request :: "pyval \<Rightarrow> update_request" where
  "cancel_request booking_id =
     \<lparr>Key = booking_id,
      ConditionExpression = Some (AttrEquals ''id'' booking_id),
      UpdateExpression = SetAttr ''status'' (PStr ''CANCELLED'')\<rparr>"

definition cancel_booking :: "update_item_op \<Rightarrow> pyval \<Rightarrow> world \<Rightarrow> (exn + bool) \<times> world" where
  "cancel_booking update_item booking_id w =
     (case call_update_item update_item (cancel_request booking_id) w of
        (Inr ret, w1) \<Rightarrow> (Inr True, put_metadata booking_id (Response ret) w1)
      | (Inl (RaisedClientError err), w1) \<Rightarrow>
          (Inl (BookingCancellation
                  (BookingCancellationException_init None None (Some (StoreError err)))), w1)
      | (Inl e, w1) \<Rightarrow> (Inl e, w1))"

text \<open>
  \<^verbatim>\<open>lambda_handler(event, context)\<close>: the check for the key \<^verbatim>\<open>bookingId\<close>, then the
  \<^verbatim>\<open>try\<close> block, whose \<^verbatim>\<open>except\<close> clause catches \<^verbatim>\<open>BookingCancellationException\<close> only.
\<close>

definition lambda_handler ::
  "update_item_op \<Rightarrow> event \<Rightarrow> 'c \<Rightarrow> world \<Rightarrow> (exn + bool) \<times> world" where
  "lambda_handler update_item event context w =
     (case event ''bookingId'' of
        None \<Rightarrow> (Inl (ValueError ''Invalid booking ID''), w)
      | Some booking_id \<Rightarrow>
          (case cancel_booking update_item booking_id w of
             (Inr ret, w1) \<Rightarrow> (Inr ret, put_annotation ''BookingStatus'' ''CANCELLED'' w1)
           | (Inl (BookingCancellation err), w1) \<Rightarrow>
               (Inl (BookingCancellation
                       (BookingCancellationException_init None None (Some (Wrapped err)))),
                put_metadata (PStr ''cancel_booking_error'') (Error err)
                  (put_annotation ''BookingStatus'' ''ERROR'' w1))
           | (Inl e, w1) \<Rightarrow> (Inl e, w1)))"

section \<open>The SDK and the Record Store\<close>

text \<open>
  Before a request is sent, the SDK turns every value of the request into the store's
  wire format, lists and dictionaries element by element. A \<^verbatim>\<open>float\<close> is refused with a
  \<^verbatim>\<open>TypeError\<close>; an \<^verbatim>\<open>int\<close> goes through a decimal context of 38 digits that traps
  rounding, so an integer of 39 digits or more raises a signal of the \<^verbatim>\<open>decimal\<close> module.
  The first value that fails decides; in the handler's request the key and the value of
  the condition are the same.
\<close>

fun first_error :: "exn option list \<Rightarrow> exn option" where
  "first_error [] = None"
| "first_error (None # es) = first_error es"
| "first_error (Some e # es) = Some e"

fun serializer_error :: "pyval \<Rightarrow> exn option" where
  "serializer_error PNone = None"
| "serializer_error (PBool b) = None"
| "serializer_error (PInt n) = (if \<bar>n\<bar> < 10 ^ 38 then None else Some DecimalException)"
| "serializer_error (PFloat m e) =
     Some (TypeError ''Float types are not supported. Use Decimal types instead.'')"
| "serializer_error (PStr s) = None"
| "serializer_error (PList xs) = first_error (map serializer_error xs)"
| "serializer_error (PDict kvs) = first_error (map (\<lambda>kv. serializer_error (snd kv)) kvs)"

fun condition_value :: "condition option \<Rightarrow> pyval list" where
  "condition_value None = []"
| "condition_value (Some (AttrEquals a v)) = [v]"

fun action_value :: "update_action \<Rightarrow> pyval" where
  "action_value (SetAttr a v) = v"

definition request_error :: "update_request \<Rightarrow> exn option" where
  "request_error req =
     first_error (map serializer_error
       (Key req # condition_value (ConditionExpression req) @ [action_value (UpdateExpression req)]))"

text \<open>
  Modelled from the spec: the Record Store, an external service. Its conditional
  "update-if-exists" takes a record identifier and a target value and answers with the
  updated attributes or with a failure. The key of the table is the string attribute
  \<^verbatim>\<open>id\<close>: a key of another type is refused, the key attribute cannot be assigned, and the
  condition is evaluated on the stored record, where an attribute of a record that does
  not exist equals nothing. An update whose condition holds, or that has none, is an
  upsert: on a key without a record it adds the record. A refused request leaves the table
  as it was. This is the store when it answers the request itself; what the handler does
  with any other outcome (throttling, an outage, an exception of the SDK) is proved for
  every \<open>update_item_op\<close>.
\<close>

definition item_attr :: "booking_table \<Rightarrow> string \<Rightarrow> string \<Rightarrow> pyval option" where
  "item_attr t k a =
     (case t k of
        None \<Rightarrow> None
      | Some it \<Rightarrow> if a = ''id'' then Some (PStr k) else it a)"

fun holds :: "condition option \<Rightarrow> booking_table \<Rightarrow> string \<Rightarrow> bool" where
  "holds None t k = True"
| "holds (Some (AttrEquals a v)) t k = (item_attr t k a = Some v)"

definition validation_error :: client_error where
  "validation_error = ClientError ''ValidationException'' ''The provided key element does not match the schema''"

definition key_update_error :: client_error where
  "key_update_error = ClientError ''ValidationException'' ''Cannot update attribute id. This attribute is part of the key''"

definition condition_failed :: client_error where
  "condition_failed = ClientError ''ConditionalCheckFailedException'' ''The conditional request failed''"

definition store_update :: update_item_op where
  "store_update req t =
     (case Key req of
        PStr k \<Rightarrow>
          (case UpdateExpression req of
             SetAttr a v \<Rightarrow>
               if a = ''id'' then (Inl (RaisedClientError key_update_error), t)
               else if holds (ConditionExpression req) t k then
                 (case t k of
                    None \<Rightarrow> (Inr [(a, v)], t(k \<mapsto> [a \<mapsto> v]))
                  | Some it \<Rightarrow> (Inr [(a, v)], t(k \<mapsto> it(a \<mapsto> v))))
               else (Inl (RaisedClientError condition_failed), t))
      | _ \<Rightarrow> (Inl (RaisedClientError validation_error), t))"

text \<open>
  \<^verbatim>\<open>table.update_item\<close>: the SDK's conversion of the values, then the store.
\<close>

definition update_item :: update_item_op where
  "update_item req t =
     (case request_error req of
        Some e \<Rightarrow> (Inl e, t)
      | None \<Rightarrow> store_update req t)"

definition record_exists :: "booking_table \<Rightarrow> pyval \<Rightarrow> bool" where
  "record_exists t booking_id = (case booking_id of PStr k \<Rightarrow> t k \<noteq> None | _ \<Rightarrow> False)"

definition status_of :: "booking_table \<Rightarrow> pyval \<Rightarrow> pyval option" where
  "status_of t booking_id =
     (case booking_id of PStr k \<Rightarrow> item_attr t k ''status'' | _ \<Rightarrow> None)"

section \<open>Worlds and stores to evaluate the handler on\<close>

text \<open>
  A table holding one confirmed booking, before any call; a store that answers every
  request with a throttling error and changes nothing.
\<close>

definition one_booking :: world where
  "one_booking =
     \<lparr>bookings = [''abc123'' \<mapsto> [''status'' \<mapsto> PStr ''CONFIRMED'']],
      store_calls = [],
      tracer_log = []\<rparr>"

definition throttled :: update_item_op where
  "throttled req t =
     (Inl (RaisedClientError
        (ClientError ''ProvisionedThroughputExceededException'' ''Rate exceeded'')), t)"

text \<open>
  A structured error value in the specification's words: it has a message and a status
  code (its details may be absent).
\<close>

definition structured_error :: "exn \<Rightarrow> bool" where
  "structured_error e = (exn_message e \<noteq> None \<and> exn_status_code e \<noteq> None)"

section \<open>What one call of the store does to the handler's state\<close>

lemma init_defaults:
  "BookingCancellationException_init None None (Some (StoreError err)) =
     BookingCancellationException ''Booking cancellation failed'' 500 (StoreError err)"
  "BookingCancellationException_init None None (Some (Wrapped b)) =
     BookingCancellationException ''Booking cancellation failed'' 500 (Wrapped b)"
  "BookingCancellationException_init None None None =
     BookingCancellationException ''Booking cancellation failed'' 500 EmptyDict"
  by (simp_all add: BookingCancellationException_init_def)

lemma wrapped_not_own_details: "Wrapped b \<noteq> details b"
proof
  assume "Wrapped b = details b"
  then have "size (Wrapped b) = size (details b)" by simp
  then show False by (cases b) simp
qed

lemma cancel_booking_accepted:
  assumes "upd (cancel_request booking_id) (bookings w) = (Inr ret, t)"
  shows "cancel_booking upd booking_id w =
    (Inr True,
     w\<lparr>bookings := t,
       store_calls := store_calls w @ [cancel_request booking_id],
       tracer_log := tracer_log w @ [Metadata booking_id (Response ret)]\<rparr>)"
  using assms by (simp add: cancel_booking_def call_update_item_def put_metadata_def)

lemma cancel_booking_rejected:
  assumes "upd (cancel_request booking_id) (bookings w) = (Inl (RaisedClientError err), t)"
  shows "cancel_booking upd booking_id w =
    (Inl (BookingCancellation
            (BookingCancellationException ''Booking cancellation failed'' 500 (StoreError err))),
     w\<lparr>bookings := t, store_calls := store_calls w @ [cancel_request booking_id]\<rparr>)"
  using assms by (simp add: cancel_booking_def call_update_item_def init_defaults)

lemma lambda_handler_accepted:
  assumes "event ''bookingId'' = Some booking_id"
    and "upd (cancel_request booking_id) (bookings w) = (Inr ret, t)"
  shows "lambda_handler upd event context w =
    (Inr True,
     w\<lparr>bookings := t,
       store_calls := store_calls w @ [cancel_request booking_id],
       tracer_log := tracer_log w @
         [Metadata booking_id (Response ret), Annotation ''BookingStatus'' ''CANCELLED'']\<rparr>)"
  using assms
  by (simp add: lambda_handler_def cancel_booking_accepted put_annotation_def)

lemma lambda_handler_rejected:
  assumes "event ''bookingId'' = Some booking_id"
    and "upd (cancel_request booking_id) (bookings w) = (Inl (RaisedClientError err), t)"
  shows "lambda_handler upd event context w =
    (Inl (BookingCancellation
            (BookingCancellationException ''Booking cancellation failed'' 500
               (Wrapped (BookingCancellationException ''Booking cancellation failed'' 500
                  (StoreError err))))),
     w\<lparr>bookings := t,
       store_calls := store_calls w @ [cancel_request booking_id],
       tracer_log := tracer_log w @
         [Annotation ''BookingStatus'' ''ERROR'',
          Metadata (PStr ''cancel_booking_error'')
            (Error (BookingCancellationException ''Booking cancellation failed'' 500
               (StoreError err)))]\<rparr>)"
  using assms
  by (simp add: lambda_handler_def cancel_booking_rejected put_annotation_def
      put_metadata_def init_defaults)

lemma lambda_handler_store:
  assumes "event ''bookingId'' = Some booking_id"
  shows "bookings (snd (lambda_handler upd event context w)) =
      snd (upd (cancel_request booking_id) (bookings w))
    \<and> store_calls (snd (lambda_handler upd event context w)) =
        store_calls w @ [cancel_request booking_id]"
  using assms
  by (simp add: lambda_handler_def cancel_booking_def call_update_item_def put_annotation_def
      put_metadata_def split: prod.splits sum.splits exn.splits)

lemma lambda_handler_result:
  assumes "event ''bookingId'' = Some booking_id"
  shows "fst (lambda_handler upd event context w) =
    (case fst (upd (cancel_request booking_id) (bookings w)) of
       Inr ret \<Rightarrow> Inr True
     | Inl (RaisedClientError err) \<Rightarrow>
         Inl (BookingCancellation
           (BookingCancellationException ''Booking cancellation failed'' 500
              (Wrapped (BookingCancellationException ''Booking cancellation failed'' 500
                 (StoreError err)))))
     | Inl (BookingCancellation b) \<Rightarrow>
         Inl (BookingCancellation
           (BookingCancellationException ''Booking cancellation failed'' 500 (Wrapped b)))
     | Inl e \<Rightarrow> Inl e)"
  using assms
  by (simp add: lambda_handler_def cancel_booking_def call_update_item_def init_defaults
      split: prod.splits sum.splits exn.splits)

lemma raised_booking_cancellation:
  assumes "fst (lambda_handler upd event context w) = Inl (BookingCancellation b)"
  shows "\<exists>inner. b = BookingCancellationException ''Booking cancellation failed'' 500 (Wrapped inner)"
  using assms
  by (auto simp: lambda_handler_def cancel_booking_def call_update_item_def init_defaults
      split: option.splits prod.splits sum.splits exn.splits)

section \<open>What the SDK and the Record Store answer to the handler's request\<close>

lemma request_error_string: "request_error (cancel_request (PStr k)) = None"
  by (simp add: request_error_def cancel_request_def)

lemma cancel_condition_is_existence:
  "holds (ConditionExpression (cancel_request (PStr k))) t k = (t k \<noteq> None)"
  by (simp add: cancel_request_def item_attr_def split: option.splits)

lemma update_item_existing:
  assumes "t k = Some it"
  shows "update_item (cancel_request (PStr k)) t =
    (Inr [(''status'', PStr ''CANCELLED'')], t(k \<mapsto> it(''status'' \<mapsto> PStr ''CANCELLED'')))"
  using assms
  by (simp add: update_item_def request_error_string)
    (simp add: store_update_def cancel_request_def item_attr_def)

lemma update_item_missing:
  assumes "t k = None"
  shows "update_item (cancel_request (PStr k)) t = (Inl (RaisedClientError condition_failed), t)"
  using assms
  by (simp add: update_item_def request_error_string)
    (simp add: store_update_def cancel_request_def item_attr_def)

text \<open>
  The condition is what keeps the update from adding a record: the same request without it
  is accepted on a key without a record.
\<close>

lemma update_without_condition_adds_record:
  assumes "t k = None"
  shows "update_item ((cancel_request (PStr k))\<lparr>ConditionExpression := None\<rparr>) t =
    (Inr [(''status'', PStr ''CANCELLED'')], t(k \<mapsto> [''status'' \<mapsto> PStr ''CANCELLED'']))"
  using assms
  by (simp add: update_item_def request_error_def store_update_def cancel_request_def)

lemma record_existsE:
  assumes "record_exists t booking_id"
  obtains k it where "booking_id = PStr k" and "t k = Some it"
  using assms by (cases booking_id) (auto simp: record_exists_def)

lemma first_error_mem: "first_error es = Some e \<Longrightarrow> Some e \<in> set es"
  by (induction es rule: first_error.induct) auto

lemma serializer_error_class:
  "serializer_error v = Some e \<Longrightarrow> e = DecimalException \<or> (\<exists>m. e = TypeError m)"
proof (induction v arbitrary: e rule: serializer_error.induct)
  case (6 xs)
  from first_error_mem [OF "6.prems" [simplified]] obtain x
    where "x \<in> set xs" and "serializer_error x = Some e" by auto
  then show ?case by (rule "6.IH")
next
  case (7 kvs)
  from first_error_mem [OF "7.prems" [simplified]] obtain kv
    where "kv \<in> set kvs" and "serializer_error (snd kv) = Some e" by auto
  then show ?case by (rule "7.IH")
qed (auto split: if_splits)

lemma update_item_no_ValueError: "fst (update_item req t) \<noteq> Inl (ValueError m)"
proof (cases "request_error req")
  case None
  then show ?thesis
    by (simp add: update_item_def store_update_def
        split: pyval.splits update_action.splits option.splits)
next
  case (Some e)
  then have "Some e \<in> set (map serializer_error
      (Key req # condition_value (ConditionExpression req) @ [action_value (UpdateExpression req)]))"
    unfolding request_error_def by (rule first_error_mem)
  then obtain v where "serializer_error v = Some e" by auto
  from serializer_error_class [OF this] have "e \<noteq> ValueError m" by auto
  with Some show ?thesis by (simp add: update_item_def)
qed

section \<open>Missing booking identifier\<close>

text \<open>
  C2. When the event has no \<^verbatim>\<open>bookingId\<close>, \<^verbatim>\<open>lambda_handler\<close> raises the
  \<^verbatim>\<open>ValueError\<close> "Invalid booking ID", whose kind is the input validation failure and
  not the cancellation failure, and nothing has happened before: the table, the list of
  store calls and the tracer are as they were, whatever the store would answer.
\<close>

theorem lambda_handler_missing_bookingId:
  assumes "event ''bookingId'' = None"
  shows "lambda_handler upd event context w = (Inl (ValueError ''Invalid booking ID''), w)
    \<and> kind_of (ValueError ''Invalid booking ID'') = InvalidInput
    \<and> kind_of (ValueError ''Invalid booking ID'') \<noteq> CancellationFailed
    \<and> store_calls (snd (lambda_handler upd event context w)) = store_calls w"
  using assms by (simp add: lambda_handler_def)

theorem lambda_handler_missing_bookingId_witness:
  "(Map.empty :: event) ''bookingId'' = None
    \<and> lambda_handler update_item Map.empty () one_booking =
        (Inl (ValueError ''Invalid booking ID''), one_booking)
    \<and> store_calls (snd (lambda_handler update_item Map.empty () one_booking)) = []"
  using lambda_handler_missing_bookingId [of Map.empty update_item "()" one_booking]
  by (simp add: one_booking_def)

section \<open>Cancelling a booking that exists\<close>

text \<open>
  C1. When the table holds a record under the booking identifier, \<^verbatim>\<open>cancel_booking\<close>
  returns \<^verbatim>\<open>True\<close> and the status of that record is then \<^verbatim>\<open>CANCELLED\<close>; \<^verbatim>\<open>lambda_handler\<close>
  on an event with that \<^verbatim>\<open>bookingId\<close> returns \<^verbatim>\<open>True\<close> and leaves the record with the status
  \<^verbatim>\<open>CANCELLED\<close> as well.
\<close>

theorem cancel_existing_booking:
  assumes "record_exists (bookings w) booking_id"
    and "event ''bookingId'' = Some booking_id"
  shows "fst (cancel_booking update_item booking_id w) = Inr True
    \<and> status_of (bookings (snd (cancel_booking update_item booking_id w))) booking_id =
        Some (PStr ''CANCELLED'')
    \<and> fst (lambda_handler update_item event context w) = Inr True
    \<and> status_of (bookings (snd (lambda_handler update_item event context w))) booking_id =
        Some (PStr ''CANCELLED'')"
proof -
  from assms(1) obtain k it where k: "booking_id = PStr k" and it: "bookings w k = Some it"
    by (rule record_existsE)
  let ?t = "(bookings w)(k \<mapsto> it(''status'' \<mapsto> PStr ''CANCELLED''))"
  have upd: "update_item (cancel_request booking_id) (bookings w) =
      (Inr [(''status'', PStr ''CANCELLED'')], ?t)"
    unfolding k using it by (rule update_item_existing)
  have st: "status_of ?t booking_id = Some (PStr ''CANCELLED'')"
    by (simp add: k status_of_def item_attr_def)
  show ?thesis
    using st
    by (simp add: cancel_booking_accepted [where upd = update_item, OF upd]
        lambda_handler_accepted [where upd = update_item and event = event, OF assms(2) upd])
qed

theorem cancel_existing_booking_witness:
  "record_exists (bookings one_booking) (PStr ''abc123'')
    \<and> fst (cancel_booking update_item (PStr ''abc123'') one_booking) = Inr True
    \<and> fst (lambda_handler update_item [''bookingId'' \<mapsto> PStr ''abc123''] () one_booking) = Inr True
    \<and> status_of (bookings (snd (lambda_handler update_item
          [''bookingId'' \<mapsto> PStr ''abc123''] () one_booking))) (PStr ''abc123'') =
        Some (PStr ''CANCELLED'')"
proof -
  have ex: "record_exists (bookings one_booking) (PStr ''abc123'')"
    by (simp add: record_exists_def one_booking_def)
  have ev: "[''bookingId'' \<mapsto> PStr ''abc123''] ''bookingId'' = Some (PStr ''abc123'')"
    by simp
  show ?thesis
    using ex ev
      cancel_existing_booking [of one_booking "PStr ''abc123''"
        "[''bookingId'' \<mapsto> PStr ''abc123'']" "()"]
    by simp
qed

section \<open>Cancelling a booking that does not exist\<close>

text \<open>
  C3. When the table holds no record under the booking identifier (a string, as the
  \<^verbatim>\<open>id\<close> of a booking is), \<^verbatim>\<open>cancel_booking\<close> raises a \<^verbatim>\<open>BookingCancellationException\<close> and
  the table is as it was before the call: in particular it still holds no record under
  that identifier.
\<close>

theorem cancel_missing_booking:
  assumes "bookings w k = None"
  shows "(\<exists>err. fst (cancel_booking update_item (PStr k) w) =
        Inl (BookingCancellation
          (BookingCancellationException ''Booking cancellation failed'' 500 (StoreError err))))
    \<and> bookings (snd (cancel_booking update_item (PStr k) w)) = bookings w
    \<and> bookings (snd (cancel_booking update_item (PStr k) w)) k = None
    \<and> \<not> record_exists (bookings (snd (cancel_booking update_item (PStr k) w))) (PStr k)"
proof -
  have "update_item (cancel_request (PStr k)) (bookings w) =
      (Inl (RaisedClientError condition_failed), bookings w)"
    using assms by (rule update_item_missing)
  from cancel_booking_rejected [where upd = update_item, OF this] show ?thesis
    using assms by (simp add: record_exists_def)
qed

theorem cancel_missing_booking_witness:
  "bookings one_booking ''ghost'' = None
    \<and> fst (cancel_booking update_item (PStr ''ghost'') one_booking) =
        Inl (BookingCancellation
          (BookingCancellationException ''Booking cancellation failed'' 500
             (StoreError condition_failed)))
    \<and> bookings (snd (cancel_booking update_item (PStr ''ghost'') one_booking)) =
        bookings one_booking"
proof -
  have no: "bookings one_booking ''ghost'' = None"
    by (simp add: one_booking_def)
  have "update_item (cancel_request (PStr ''ghost'')) (bookings one_booking) =
      (Inl (RaisedClientError condition_failed), bookings one_booking)"
    using no by (rule update_item_missing)
  from cancel_booking_rejected [where upd = update_item, OF this] show ?thesis
    using no cancel_missing_booking [OF no] by simp
qed

section \<open>What the handler does when the cancellation fails\<close>

text \<open>
  C4, as stated, fails: the exception that \<^verbatim>\<open>lambda_handler\<close> raises again does not carry
  the details of the exception it has caught. For a booking that does not exist,
  \<^verbatim>\<open>cancel_booking\<close> raises an exception whose details are the store's error, and the
  details of the exception \<^verbatim>\<open>lambda_handler\<close> raises are not that error.
\<close>

theorem reraised_details_not_original_details:
  "fst (cancel_booking update_item (PStr ''ghost'') one_booking) =
      Inl (BookingCancellation
        (BookingCancellationException ''Booking cancellation failed'' 500
           (StoreError condition_failed)))
    \<and> exn_details (BookingCancellation
          (BookingCancellationException ''Booking cancellation failed'' 500
             (StoreError condition_failed))) = Some (StoreError condition_failed)
    \<and> fst (lambda_handler update_item [''bookingId'' \<mapsto> PStr ''ghost''] () one_booking) =
        Inl (BookingCancellation
          (BookingCancellationException ''Booking cancellation failed'' 500
             (Wrapped (BookingCancellationException ''Booking cancellation failed'' 500
                (StoreError condition_failed)))))
    \<and> exn_details (BookingCancellation
          (BookingCancellationException ''Booking cancellation failed'' 500
             (Wrapped (BookingCancellationException ''Booking cancellation failed'' 500
                (StoreError condition_failed))))) \<noteq> Some (StoreError condition_failed)"
proof -
  have ev: "[''bookingId'' \<mapsto> PStr ''ghost''] ''bookingId'' = Some (PStr ''ghost'')"
    by simp
  have "bookings one_booking ''ghost'' = None"
    by (simp add: one_booking_def)
  then have u: "update_item (cancel_request (PStr ''ghost'')) (bookings one_booking) =
      (Inl (RaisedClientError condition_failed), bookings one_booking)"
    by (rule update_item_missing)
  show ?thesis
    by (simp add: cancel_booking_rejected [where upd = update_item, OF u]
        lambda_handler_rejected [of "[''bookingId'' \<mapsto> PStr ''ghost'']" "PStr ''ghost''"
          update_item one_booking condition_failed "bookings one_booking" "()", OF ev u])
qed

text \<open>
  C4, amended. When \<^verbatim>\<open>cancel_booking\<close> raises a \<^verbatim>\<open>BookingCancellationException\<close>,
  \<^verbatim>\<open>lambda_handler\<close> gives the tracer the annotation \<^verbatim>\<open>BookingStatus\<close> = \<^verbatim>\<open>ERROR\<close>, then the
  exception it has caught as the metadata \<^verbatim>\<open>cancel_booking_error\<close>, and raises a new
  \<^verbatim>\<open>BookingCancellationException\<close> whose details are the caught exception itself, never the
  details of the caught exception: those are one level further down.
\<close>

theorem lambda_handler_cancellation_failed:
  assumes "event ''bookingId'' = Some booking_id"
    and "cancel_booking upd booking_id w = (Inl (BookingCancellation err), w1)"
  shows "lambda_handler upd event context w =
      (Inl (BookingCancellation
              (BookingCancellationException ''Booking cancellation failed'' 500 (Wrapped err))),
       w1\<lparr>tracer_log := tracer_log w1 @
           [Annotation ''BookingStatus'' ''ERROR'',
            Metadata (PStr ''cancel_booking_error'') (Error err)]\<rparr>)
    \<and> exn_details (BookingCancellation
          (BookingCancellationException ''Booking cancellation failed'' 500 (Wrapped err))) =
        Some (Wrapped err)
    \<and> Wrapped err \<noteq> details err"
  using assms wrapped_not_own_details [of err]
  by (simp add: lambda_handler_def put_annotation_def put_metadata_def init_defaults)

theorem lambda_handler_cancellation_failed_witness:
  "[''bookingId'' \<mapsto> PStr ''ghost''] ''bookingId'' = Some (PStr ''ghost'')
    \<and> cancel_booking update_item (PStr ''ghost'') one_booking =
        (Inl (BookingCancellation
           (BookingCancellationException ''Booking cancellation failed'' 500
              (StoreError condition_failed))),
         one_booking\<lparr>store_calls := [cancel_request (PStr ''ghost'')]\<rparr>)
    \<and> lambda_handler update_item [''bookingId'' \<mapsto> PStr ''ghost''] () one_booking =
        (Inl (BookingCancellation
           (BookingCancellationException ''Booking cancellation failed'' 500
              (Wrapped (BookingCancellationException ''Booking cancellation failed'' 500
                 (StoreError condition_failed))))),
         one_booking
           \<lparr>store_calls := [cancel_request (PStr ''ghost'')],
            tracer_log :=
              [Annotation ''BookingStatus'' ''ERROR'',
               Metadata (PStr ''cancel_booking_error'')
                 (Error (BookingCancellationException ''Booking cancellation failed'' 500
                    (StoreError condition_failed)))]\<rparr>)"
proof -
  have ev: "[''bookingId'' \<mapsto> PStr ''ghost''] ''bookingId'' = Some (PStr ''ghost'')"
    by simp
  have "bookings one_booking ''ghost'' = None"
    by (simp add: one_booking_def)
  then have "update_item (cancel_request (PStr ''ghost'')) (bookings one_booking) =
      (Inl (RaisedClientError condition_failed), bookings one_booking)"
    by (rule update_item_missing)
  from cancel_booking_rejected [where upd = update_item, OF this]
  have c: "cancel_booking update_item (PStr ''ghost'') one_booking =
      (Inl (BookingCancellation
         (BookingCancellationException ''Booking cancellation failed'' 500
            (StoreError condition_failed))),
       one_booking\<lparr>store_calls := [cancel_request (PStr ''ghost'')]\<rparr>)"
    by (simp add: one_booking_def)
  show ?thesis
    using ev c
      lambda_handler_cancellation_failed [of "[''bookingId'' \<mapsto> PStr ''ghost'']"
        "PStr ''ghost''" update_item one_booking _ _ "()", OF ev c]
    by (simp add: one_booking_def)
qed

section \<open>The error of a refused store call\<close>

text \<open>
  C5. Whenever the store answers the conditional update with a \<^verbatim>\<open>ClientError\<close> (a failed
  condition or any other error of the store), \<^verbatim>\<open>cancel_booking\<close> raises a
  \<^verbatim>\<open>BookingCancellationException\<close> built from the defaults: its message is
  "Booking cancellation failed", its status code 500, and its details are that
  \<^verbatim>\<open>ClientError\<close>.
\<close>

theorem cancel_booking_store_error:
  assumes "fst (upd (cancel_request booking_id) (bookings w)) = Inl (RaisedClientError err)"
  shows "fst (cancel_booking upd booking_id w) =
      Inl (BookingCancellation (BookingCancellationException_init None None (Some (StoreError err))))
    \<and> message (BookingCancellationException_init None None (Some (StoreError err))) =
        ''Booking cancellation failed''
    \<and> status_code (BookingCancellationException_init None None (Some (StoreError err))) = 500
    \<and> details (BookingCancellationException_init None None (Some (StoreError err))) =
        StoreError err"
proof -
  from assms obtain t
    where "upd (cancel_request booking_id) (bookings w) = (Inl (RaisedClientError err), t)"
    by (cases "upd (cancel_request booking_id) (bookings w)") simp
  from cancel_booking_rejected [where upd = upd, OF this] show ?thesis
    by (simp add: init_defaults)
qed

theorem cancel_booking_store_error_witness:
  "fst (throttled (cancel_request (PStr ''abc123'')) (bookings one_booking)) =
      Inl (RaisedClientError
        (ClientError ''ProvisionedThroughputExceededException'' ''Rate exceeded''))
    \<and> fst (cancel_booking throttled (PStr ''abc123'') one_booking) =
        Inl (BookingCancellation
          (BookingCancellationException ''Booking cancellation failed'' 500
             (StoreError
                (ClientError ''ProvisionedThroughputExceededException'' ''Rate exceeded''))))"
proof -
  have th: "fst (throttled (cancel_request (PStr ''abc123'')) (bookings one_booking)) =
      Inl (RaisedClientError
        (ClientError ''ProvisionedThroughputExceededException'' ''Rate exceeded''))"
    by (simp add: throttled_def)
  show ?thesis
    using th cancel_booking_store_error [where upd = throttled, OF th]
    by (simp add: init_defaults)
qed

section \<open>The errors the handler raises\<close>

text \<open>
  C6, as stated, fails: on an event without \<^verbatim>\<open>bookingId\<close> the handler raises the built-in
  \<^verbatim>\<open>ValueError\<close>, which has neither a \<^verbatim>\<open>message\<close> nor a \<^verbatim>\<open>status_code\<close> attribute.
\<close>

theorem value_error_not_structured:
  "fst (lambda_handler update_item Map.empty () one_booking) =
      Inl (ValueError ''Invalid booking ID'')
    \<and> \<not> structured_error (ValueError ''Invalid booking ID'')"
  by (simp add: lambda_handler_def structured_error_def)

text \<open>
  C6, amended. Of the errors \<^verbatim>\<open>lambda_handler\<close> raises, every cancellation failure is a
  structured error value, a \<^verbatim>\<open>BookingCancellationException\<close> with the message
  "Booking cancellation failed", the status code 500 and the caught exception as details.
  The input validation failure, raised when \<^verbatim>\<open>bookingId\<close> is missing, is a \<^verbatim>\<open>ValueError\<close>
  that carries only the text "Invalid booking ID": it has no message attribute, no status
  code and no details. The two kinds are told apart by the class of the exception.
\<close>

theorem lambda_handler_error_kinds:
  assumes "fst (lambda_handler upd event context w) = Inl e"
  shows "(event ''bookingId'' = None \<longrightarrow>
          e = ValueError ''Invalid booking ID''
        \<and> exn_message e = None \<and> exn_status_code e = None \<and> exn_details e = None
        \<and> \<not> structured_error e
        \<and> kind_of e = InvalidInput)
    \<and> (kind_of e = CancellationFailed \<longrightarrow>
          exn_message e = Some ''Booking cancellation failed''
        \<and> exn_status_code e = Some 500
        \<and> (\<exists>inner. exn_details e = Some (Wrapped inner))
        \<and> structured_error e)
    \<and> (\<forall>m b. kind_of (ValueError m) \<noteq> kind_of (BookingCancellation b))"
proof -
  have invalid: "event ''bookingId'' = None \<Longrightarrow> e = ValueError ''Invalid booking ID''"
    using assms by (simp add: lambda_handler_def)
  have failed: "\<exists>inner. e = BookingCancellation
      (BookingCancellationException ''Booking cancellation failed'' 500 (Wrapped inner))"
    if "kind_of e = CancellationFailed"
  proof -
    from that obtain b where b: "e = BookingCancellation b"
      by (cases e) simp_all
    from raised_booking_cancellation [OF assms [unfolded b]] show ?thesis
      by (simp add: b)
  qed
  show ?thesis
    using invalid failed by (auto simp: structured_error_def)
qed

theorem lambda_handler_error_kinds_witness:
  "fst (lambda_handler update_item Map.empty () one_booking) =
      Inl (ValueError ''Invalid booking ID'')
    \<and> (Map.empty :: event) ''bookingId'' = None
    \<and> exn_status_code (ValueError ''Invalid booking ID'') = None
    \<and> kind_of (ValueError ''Invalid booking ID'') = InvalidInput
    \<and> fst (lambda_handler update_item [''bookingId'' \<mapsto> PStr ''ghost''] () one_booking) =
        Inl (BookingCancellation
          (BookingCancellationException ''Booking cancellation failed'' 500
             (Wrapped (BookingCancellationException ''Booking cancellation failed'' 500
                (StoreError condition_failed)))))
    \<and> kind_of (BookingCancellation
          (BookingCancellationException ''Booking cancellation failed'' 500
             (Wrapped (BookingCancellationException ''Booking cancellation failed'' 500
                (StoreError condition_failed))))) = CancellationFailed
    \<and> structured_error (BookingCancellation
          (BookingCancellationException ''Booking cancellation failed'' 500
             (Wrapped (BookingCancellationException ''Booking cancellation failed'' 500
                (StoreError condition_failed)))))"
proof -
  have r: "fst (lambda_handler update_item Map.empty () one_booking) =
      Inl (ValueError ''Invalid booking ID'')"
    by (simp add: lambda_handler_def)
  have ev: "[''bookingId'' \<mapsto> PStr ''ghost''] ''bookingId'' = Some (PStr ''ghost'')"
    by simp
  have "bookings one_booking ''ghost'' = None"
    by (simp add: one_booking_def)
  then have u: "update_item (cancel_request (PStr ''ghost'')) (bookings one_booking) =
      (Inl (RaisedClientError condition_failed), bookings one_booking)"
    by (rule update_item_missing)
  have g: "fst (lambda_handler update_item [''bookingId'' \<mapsto> PStr ''ghost''] () one_booking) =
      Inl (BookingCancellation
        (BookingCancellationException ''Booking cancellation failed'' 500
           (Wrapped (BookingCancellationException ''Booking cancellation failed'' 500
              (StoreError condition_failed)))))"
    by (simp add: lambda_handler_rejected [of "[''bookingId'' \<mapsto> PStr ''ghost'']"
          "PStr ''ghost''" update_item one_booking condition_failed "bookings one_booking" "()",
          OF ev u])
  show ?thesis
    using r g
      lambda_handler_error_kinds [where upd = update_item, OF r]
      lambda_handler_error_kinds [where upd = update_item, OF g]
    by simp
qed

section \<open>Cancelling twice\<close>

text \<open>
  C7. When the table holds a record under the booking identifier, \<^verbatim>\<open>cancel_booking\<close>
  returns \<^verbatim>\<open>True\<close> and sets the status to \<^verbatim>\<open>CANCELLED\<close>, and a second \<^verbatim>\<open>cancel_booking\<close>
  with the same identifier returns \<^verbatim>\<open>True\<close> again and leaves the table as the first call
  left it: the condition of the update holds exactly when a record is stored under the
  key, whatever its status.
\<close>

theorem cancel_booking_twice:
  assumes "record_exists (bookings w) booking_id"
  shows "fst (cancel_booking update_item booking_id w) = Inr True
    \<and> status_of (bookings (snd (cancel_booking update_item booking_id w))) booking_id =
        Some (PStr ''CANCELLED'')
    \<and> fst (cancel_booking update_item booking_id
        (snd (cancel_booking update_item booking_id w))) = Inr True
    \<and> bookings (snd (cancel_booking update_item booking_id
        (snd (cancel_booking update_item booking_id w)))) =
        bookings (snd (cancel_booking update_item booking_id w))
    \<and> (\<forall>t k. booking_id = PStr k \<longrightarrow>
          holds (ConditionExpression (cancel_request booking_id)) t k = (t k \<noteq> None))"
proof -
  from assms obtain k it where k: "booking_id = PStr k" and it: "bookings w k = Some it"
    by (rule record_existsE)
  let ?it = "it(''status'' \<mapsto> PStr ''CANCELLED'')"
  let ?t = "(bookings w)(k \<mapsto> ?it)"
  have first: "update_item (cancel_request booking_id) (bookings w) =
      (Inr [(''status'', PStr ''CANCELLED'')], ?t)"
    unfolding k using it by (rule update_item_existing)
  have "?t k = Some ?it" by simp
  then have "update_item (cancel_request (PStr k)) ?t =
      (Inr [(''status'', PStr ''CANCELLED'')], ?t(k \<mapsto> ?it(''status'' \<mapsto> PStr ''CANCELLED'')))"
    by (rule update_item_existing)
  then have second: "update_item (cancel_request booking_id) ?t =
      (Inr [(''status'', PStr ''CANCELLED'')], ?t)"
    by (simp add: k)
  have c1: "cancel_booking update_item booking_id w =
      (Inr True,
       w\<lparr>bookings := ?t,
         store_calls := store_calls w @ [cancel_request booking_id],
         tracer_log := tracer_log w @
           [Metadata booking_id (Response [(''status'', PStr ''CANCELLED'')])]\<rparr>)"
    using first by (rule cancel_booking_accepted [where upd = update_item])
  have st: "status_of ?t booking_id = Some (PStr ''CANCELLED'')"
    by (simp add: k status_of_def item_attr_def)
  have c2: "fst (cancel_booking update_item booking_id (snd (cancel_booking update_item booking_id w))) =
      Inr True
    \<and> bookings (snd (cancel_booking update_item booking_id
        (snd (cancel_booking update_item booking_id w)))) = ?t"
    unfolding c1
    by (simp add: cancel_booking_accepted [where upd = update_item and t = ?t
          and ret = "[(''status'', PStr ''CANCELLED'')]"] second)
  show ?thesis
    using c2 st by (simp add: c1 cancel_condition_is_existence)
qed

theorem cancel_booking_twice_witness:
  "record_exists (bookings one_booking) (PStr ''abc123'')
    \<and> fst (cancel_booking update_item (PStr ''abc123'')
        (snd (cancel_booking update_item (PStr ''abc123'') one_booking))) = Inr True
    \<and> status_of (bookings (snd (cancel_booking update_item (PStr ''abc123'') one_booking)))
        (PStr ''abc123'') = Some (PStr ''CANCELLED'')"
proof -
  have ex: "record_exists (bookings one_booking) (PStr ''abc123'')"
    by (simp add: record_exists_def one_booking_def)
  show ?thesis
    using ex cancel_booking_twice [OF ex] by simp
qed

section \<open>One store call for each invocation\<close>

text \<open>
  C8. On an event that has a \<^verbatim>\<open>bookingId\<close>, \<^verbatim>\<open>lambda_handler\<close> calls
  \<^verbatim>\<open>table.update_item\<close> exactly once, whatever the call answers or raises: the list of store
  calls grows by the one request for that identifier, and the table is what that one call
  has made of it.
\<close>

theorem lambda_handler_one_store_call:
  assumes "event ''bookingId'' = Some booking_id"
  shows "store_calls (snd (lambda_handler upd event context w)) =
      store_calls w @ [cancel_request booking_id]
    \<and> length (store_calls (snd (lambda_handler upd event context w))) =
        Suc (length (store_calls w))
    \<and> bookings (snd (lambda_handler upd event context w)) =
        snd (upd (cancel_request booking_id) (bookings w))"
  using lambda_handler_store [of event booking_id upd "context" w, OF assms] by simp

theorem lambda_handler_one_store_call_witness:
  "[''bookingId'' \<mapsto> PStr ''abc123''] ''bookingId'' = Some (PStr ''abc123'')
    \<and> store_calls (snd (lambda_handler update_item
          [''bookingId'' \<mapsto> PStr ''abc123''] () one_booking)) =
        [cancel_request (PStr ''abc123'')]
    \<and> store_calls (snd (lambda_handler throttled
          [''bookingId'' \<mapsto> PStr ''abc123''] () one_booking)) =
        [cancel_request (PStr ''abc123'')]"
proof -
  have ev: "[''bookingId'' \<mapsto> PStr ''abc123''] ''bookingId'' = Some (PStr ''abc123'')"
    by simp
  show ?thesis
    using ev
      lambda_handler_one_store_call [of "[''bookingId'' \<mapsto> PStr ''abc123'']"
        "PStr ''abc123''" update_item "()" one_booking, OF ev]
      lambda_handler_one_store_call [of "[''bookingId'' \<mapsto> PStr ''abc123'']"
        "PStr ''abc123''" throttled "()" one_booking, OF ev]
    by (simp add: one_booking_def)
qed

section \<open>The error the handler raises again\<close>

text \<open>
  C9. Whenever the store call fails with a \<^verbatim>\<open>ClientError\<close>, the
  \<^verbatim>\<open>BookingCancellationException\<close> that \<^verbatim>\<open>lambda_handler\<close> raises has the default message
  "Booking cancellation failed" and the default status code 500, and its details are the
  whole exception raised by \<^verbatim>\<open>cancel_booking\<close>, not the details of that exception: the
  store's error is one level further down.
\<close>

theorem lambda_handler_reraised_error:
  assumes "event ''bookingId'' = Some booking_id"
    and "fst (upd (cancel_request booking_id) (bookings w)) = Inl (RaisedClientError err)"
  shows "fst (lambda_handler upd event context w) =
      Inl (BookingCancellation
        (BookingCancellationException ''Booking cancellation failed'' 500
           (Wrapped (BookingCancellationException ''Booking cancellation failed'' 500
              (StoreError err)))))
    \<and> fst (cancel_booking upd booking_id w) =
        Inl (BookingCancellation
          (BookingCancellationException ''Booking cancellation failed'' 500 (StoreError err)))
    \<and> Wrapped (BookingCancellationException ''Booking cancellation failed'' 500
          (StoreError err)) \<noteq> StoreError err"
proof -
  from assms(2) obtain t
    where t: "upd (cancel_request booking_id) (bookings w) = (Inl (RaisedClientError err), t)"
    by (cases "upd (cancel_request booking_id) (bookings w)") simp
  show ?thesis
    by (simp add: lambda_handler_rejected [of event booking_id upd w err t "context", OF assms(1) t]
        cancel_booking_rejected [of upd booking_id w err t, OF t])
qed

theorem lambda_handler_reraised_error_witness:
  "[''bookingId'' \<mapsto> PStr ''ghost''] ''bookingId'' = Some (PStr ''ghost'')
    \<and> fst (update_item (cancel_request (PStr ''ghost'')) (bookings one_booking)) =
        Inl (RaisedClientError condition_failed)
    \<and> fst (lambda_handler update_item [''bookingId'' \<mapsto> PStr ''ghost''] () one_booking) =
        Inl (BookingCancellation
          (BookingCancellationException ''Booking cancellation failed'' 500
             (Wrapped (BookingCancellationException ''Booking cancellation failed'' 500
                (StoreError condition_failed)))))"
proof -
  have ev: "[''bookingId'' \<mapsto> PStr ''ghost''] ''bookingId'' = Some (PStr ''ghost'')"
    by simp
  have "bookings one_booking ''ghost'' = None"
    by (simp add: one_booking_def)
  then have st: "fst (update_item (cancel_request (PStr ''ghost'')) (bookings one_booking)) =
      Inl (RaisedClientError condition_failed)"
    by (simp add: update_item_missing)
  show ?thesis
    using ev st
      lambda_handler_reraised_error [of "[''bookingId'' \<mapsto> PStr ''ghost'']"
        "PStr ''ghost''" update_item one_booking condition_failed "()", OF ev st]
    by simp
qed

section \<open>Any value of the booking identifier reaches the store call\<close>

text \<open>
  C10. \<^verbatim>\<open>lambda_handler\<close> checks only that the key \<^verbatim>\<open>bookingId\<close> is present. Whatever its
  value (the empty string, a number, a \<^verbatim>\<open>float\<close>, anything), the handler does not stop at
  the check: it calls \<^verbatim>\<open>table.update_item\<close> with that value as the key and in the
  condition, the table is what that call has made of it, and the result of the handler is
  what its two \<^verbatim>\<open>except\<close> clauses make of the outcome of that call. With the SDK and the
  store of this theory the handler never raises a \<^verbatim>\<open>ValueError\<close> then.
\<close>

theorem lambda_handler_any_bookingId:
  assumes "event ''bookingId'' = Some v"
  shows "lambda_handler upd event context w \<noteq> (Inl (ValueError ''Invalid booking ID''), w)
    \<and> store_calls (snd (lambda_handler upd event context w)) = store_calls w @ [cancel_request v]
    \<and> Key (cancel_request v) = v
    \<and> ConditionExpression (cancel_request v) = Some (AttrEquals ''id'' v)
    \<and> bookings (snd (lambda_handler upd event context w)) =
        snd (upd (cancel_request v) (bookings w))
    \<and> fst (lambda_handler upd event context w) =
        (case fst (upd (cancel_request v) (bookings w)) of
           Inr ret \<Rightarrow> Inr True
         | Inl (RaisedClientError err) \<Rightarrow>
             Inl (BookingCancellation
               (BookingCancellationException ''Booking cancellation failed'' 500
                  (Wrapped (BookingCancellationException ''Booking cancellation failed'' 500
                     (StoreError err)))))
         | Inl (BookingCancellation b) \<Rightarrow>
             Inl (BookingCancellation
               (BookingCancellationException ''Booking cancellation failed'' 500 (Wrapped b)))
         | Inl e \<Rightarrow> Inl e)
    \<and> (\<forall>m. fst (lambda_handler update_item event context w) \<noteq> Inl (ValueError m))"
proof -
  note store = lambda_handler_store [of event v upd "context" w, OF assms]
  have changed: "lambda_handler upd event context w \<noteq> (Inl (ValueError ''Invalid booking ID''), w)"
  proof
    assume "lambda_handler upd event context w = (Inl (ValueError ''Invalid booking ID''), w)"
    then have "store_calls (snd (lambda_handler upd event context w)) = store_calls w"
      by simp
    with store show False by simp
  qed
  have no_value_error: "fst (lambda_handler update_item event context w) \<noteq> Inl (ValueError m)" for m
    using update_item_no_ValueError [of "cancel_request v" "bookings w"]
    by (auto simp: lambda_handler_result [of event v update_item "context" w, OF assms]
        split: sum.splits exn.splits)
  show ?thesis
    using store changed no_value_error
      lambda_handler_result [of event v upd "context" w, OF assms]
    by (simp add: cancel_request_def)
qed

theorem lambda_handler_any_bookingId_witness:
  "[''bookingId'' \<mapsto> PStr []] ''bookingId'' = Some (PStr [])
    \<and> fst (lambda_handler update_item [''bookingId'' \<mapsto> PStr []] () one_booking) =
        Inl (BookingCancellation
          (BookingCancellationException ''Booking cancellation failed'' 500
             (Wrapped (BookingCancellationException ''Booking cancellation failed'' 500
                (StoreError condition_failed)))))
    \<and> map Key (store_calls (snd (lambda_handler update_item
          [''bookingId'' \<mapsto> PStr []] () one_booking))) = [PStr []]
    \<and> [''bookingId'' \<mapsto> PInt (10 ^ 38)] ''bookingId'' = Some (PInt (10 ^ 38))
    \<and> lambda_handler update_item [''bookingId'' \<mapsto> PInt (10 ^ 38)] () one_booking =
        (Inl DecimalException,
         one_booking\<lparr>store_calls := [cancel_request (PInt (10 ^ 38))]\<rparr>)
    \<and> [''bookingId'' \<mapsto> PFloat 3 (- 1)] ''bookingId'' = Some (PFloat 3 (- 1))
    \<and> lambda_handler update_item [''bookingId'' \<mapsto> PFloat 3 (- 1)] () one_booking =
        (Inl (TypeError ''Float types are not supported. Use Decimal types instead.''),
         one_booking\<lparr>store_calls := [cancel_request (PFloat 3 (- 1))]\<rparr>)"
proof -
  have e1: "[''bookingId'' \<mapsto> PStr []] ''bookingId'' = Some (PStr [])"
    by simp
  have e2: "[''bookingId'' \<mapsto> PInt (10 ^ 38)] ''bookingId'' = Some (PInt (10 ^ 38))"
    by simp
  have e3: "[''bookingId'' \<mapsto> PFloat 3 (- 1)] ''bookingId'' = Some (PFloat 3 (- 1))"
    by simp
  have u1: "fst (update_item (cancel_request (PStr [])) (bookings one_booking)) =
      Inl (RaisedClientError condition_failed)"
    by (simp add: update_item_missing one_booking_def)
  have u2: "update_item (cancel_request (PInt (10 ^ 38))) (bookings one_booking) =
      (Inl DecimalException, bookings one_booking)"
    by (simp add: update_item_def request_error_def cancel_request_def)
  have u3: "update_item (cancel_request (PFloat 3 (- 1))) (bookings one_booking) =
      (Inl (TypeError ''Float types are not supported. Use Decimal types instead.''),
       bookings one_booking)"
    by (simp add: update_item_def request_error_def cancel_request_def)
  have w2: "lambda_handler update_item [''bookingId'' \<mapsto> PInt (10 ^ 38)] () one_booking =
      (Inl DecimalException, one_booking\<lparr>store_calls := [cancel_request (PInt (10 ^ 38))]\<rparr>)"
    using u2
    by (simp add: lambda_handler_def cancel_booking_def call_update_item_def one_booking_def)
  have w3: "lambda_handler update_item [''bookingId'' \<mapsto> PFloat 3 (- 1)] () one_booking =
      (Inl (TypeError ''Float types are not supported. Use Decimal types instead.''),
       one_booking\<lparr>store_calls := [cancel_request (PFloat 3 (- 1))]\<rparr>)"
    using u3
    by (simp add: lambda_handler_def cancel_booking_def call_update_item_def one_booking_def)
  show ?thesis
    using e1 e2 e3 u1 w2 w3
      lambda_handler_any_bookingId [of "[''bookingId'' \<mapsto> PStr []]" "PStr []"
        update_item "()" one_booking, OF e1]
      lambda_handler_any_bookingId [of "[''bookingId'' \<mapsto> PInt (10 ^ 38)]" "PInt (10 ^ 38)"
        update_item "()" one_booking, OF e2]
      lambda_handler_any_bookingId [of "[''bookingId'' \<mapsto> PFloat 3 (- 1)]" "PFloat 3 (- 1)"
        update_item "()" one_booking, OF e3]
    by (simp add: one_booking_def)
qed

end
